theory Spec2Isabelle
  imports Main "HOL-Library.Sublist" "HOL-Library.AList" "HOL-Library.Multiset"
begin

section \<open>Data model\<close>

text \<open>
  The exceptions of the Python source that the model distinguishes. A function that can
  raise returns \<open>error + 'a\<close>, with \<open>Inl\<close> for the exception.
\<close>

datatype error = TypeError | ValueError | FileIOError | OtherError

text \<open>\<^verbatim>\<open>constants.AlertSeverity\<close> and its \<^verbatim>\<open>.value\<close>.\<close>

datatype AlertSeverity = UNKNOWN | MINOR | MODERATE | SEVERE | EXTREME

fun severity_value :: "AlertSeverity \<Rightarrow> int" where
  "severity_value UNKNOWN = 0"
| "severity_value MINOR = 1"
| "severity_value MODERATE = 2"
| "severity_value SEVERE = 3"
| "severity_value EXTREME = 4"

text \<open>
  The two tables of \<^verbatim>\<open>constants.py\<close>, as association lists in the order the
  dict literals are written (a Python dict iterates in insertion order).
\<close>

definition API_SEVERITY_MAPPING :: "(string \<times> AlertSeverity) list" where
  "API_SEVERITY_MAPPING =
     [(''Extreme'', EXTREME), (''Severe'', SEVERE), (''Moderate'', MODERATE),
      (''Minor'', MINOR), (''Unknown'', UNKNOWN)]"

definition WORD_SEVERITY_MAPPING :: "(string \<times> AlertSeverity) list" where
  "WORD_SEVERITY_MAPPING =
     [(''Warning'', EXTREME), (''Watch'', SEVERE), (''Advisory'', MODERATE),
      (''Statement'', MINOR)]"

text \<open>\<^verbatim>\<open>data_types.AlertData\<close>.\<close>

record AlertData =
  county_code :: string
  severity :: int
  description :: string
  end_time_utc :: string
  event :: string
  headline :: "string option"
  instruction :: "string option"

text \<open>
  An alert record lives in two Python representations: the \<^verbatim>\<open>AlertData\<close> instance that
  \<^verbatim>\<open>parse_alert_data\<close> builds (fields read as attributes), and the JSON object of the
  state file (fields read by subscript). \<open>Obj\<close> is the first, \<open>Dct\<close> the second.
  Subscripting an \<^verbatim>\<open>AlertData\<close> instance raises \<^verbatim>\<open>TypeError\<close>: the dataclass
  defines no \<^verbatim>\<open>__getitem__\<close>.
\<close>

datatype pyrec = Obj AlertData | Dct AlertData

fun getitem_county_code :: "pyrec \<Rightarrow> error + string" where
  "getitem_county_code (Dct d) = Inr (county_code d)"
| "getitem_county_code (Obj a) = Inl TypeError"

fun is_dict :: "pyrec \<Rightarrow> bool" where
  "is_dict (Dct d) = True"
| "is_dict (Obj a) = False"

text \<open>
  A feed entry's \<^verbatim>\<open>properties\<close>: the fields the code reads are text when present.
  An alert mapping of the current cycle binds an AlertType to \<^verbatim>\<open>AlertData\<close> instances;
  a snapshot held in the state binds it to records of either representation. Both are
  association lists in insertion order.
\<close>

type_synonym properties = "string \<rightharpoonup> string"
type_synonym alerts = "(string \<times> AlertData list) list"
type_synonym snapshot = "(string \<times> pyrec list) list"

section \<open>Severity resolution\<close>

text \<open>
  \<^verbatim>\<open>for word, severity in WORD_SEVERITY_MAPPING.items(): if word in event: return
  severity.value\<close>, then \<^verbatim>\<open>return 0\<close>. Python's \<^verbatim>\<open>in\<close> on two strings is the
  contiguous-substring test, \<^const>\<open>sublist\<close>.
\<close>

fun word_severity :: "(string \<times> AlertSeverity) list \<Rightarrow> string \<Rightarrow> int" where
  "word_severity [] ev = 0"
| "word_severity ((word, sev) # rest) ev =
     (if sublist word ev then severity_value sev else word_severity rest ev)"

definition determine_severity :: "properties \<Rightarrow> int" where
  "determine_severity props =
     (let api_severity = props ''severity'';
          by_word = word_severity WORD_SEVERITY_MAPPING
                      (case props ''event'' of None \<Rightarrow> '''' | Some e \<Rightarrow> e)
      in case api_severity of
           None \<Rightarrow> by_word
         | Some s \<Rightarrow> (case map_of API_SEVERITY_MAPPING s of
                        Some sev \<Rightarrow> severity_value sev
                      | None \<Rightarrow> by_word))"

section \<open>Sorting by severity\<close>

text \<open>\<^verbatim>\<open>max(alert.severity for alert in alert_list)\<close>: \<^verbatim>\<open>ValueError\<close> on an empty list.\<close>

fun max_severity :: "AlertData list \<Rightarrow> error + int" where
  "max_severity [] = Inl ValueError"
| "max_severity (a # as) = Inr (fold (\<lambda>b m. max m (severity b)) as (severity a))"

fun alert_severities :: "alerts \<Rightarrow> error + (string \<times> int) list" where
  "alert_severities [] = Inr []"
| "alert_severities ((alert_type, alert_list) # rest) =
     (case max_severity alert_list of
        Inl e \<Rightarrow> Inl e
      | Inr m \<Rightarrow> (case alert_severities rest of
                    Inl e \<Rightarrow> Inl e
                  | Inr xs \<Rightarrow> Inr ((alert_type, m) # xs)))"

text \<open>
  \<^verbatim>\<open>alert_severities.sort(key=lambda x: x[1], reverse=True)\<close> is a stable sort into
  descending order: elements with equal keys keep their relative order. That is the
  stable ascending sort on the negated key. The last loop stores
  \<^verbatim>\<open>alerts[alert_type]\<close> under each type in the sorted order.
\<close>

definition sort_alerts_by_severity :: "alerts \<Rightarrow> error + alerts" where
  "sort_alerts_by_severity als =
     (case alert_severities als of
        Inl e \<Rightarrow> Inl e
      | Inr sevs \<Rightarrow>
          Inr (fold (\<lambda>(alert_type, _) sorted_alerts.
                       case map_of als alert_type of
                         Some alert_list \<Rightarrow> AList.update alert_type alert_list sorted_alerts
                       | None \<Rightarrow> sorted_alerts)
                    (sort_key (\<lambda>x. - snd x) sevs) []))"

section \<open>Change detection\<close>

text \<open>\<^verbatim>\<open>{info["county_code"] for info in infos}\<close>.\<close>

fun county_code_set :: "pyrec list \<Rightarrow> error + string set" where
  "county_code_set [] = Inr {}"
| "county_code_set (info # infos) =
     (case getitem_county_code info of
        Inl e \<Rightarrow> Inl e
      | Inr c \<Rightarrow> (case county_code_set infos of
                    Inl e \<Rightarrow> Inl e
                  | Inr s \<Rightarrow> Inr (insert c s)))"

text \<open>\<^verbatim>\<open>re.compile(r'[{}"]').sub("", code)\<close>.\<close>

definition clean_code :: "string \<Rightarrow> string" where
  "clean_code code = filter (\<lambda>c. c \<notin> {CHR ''{'', CHR ''}'', CHR 0x22}) code"

record county_change =
  old_codes :: "string set"
  added :: "string set"
  removed :: "string set"

record changes =
  changes_detected :: "(string \<times> county_change) list"
  alerts_with_changed_counties :: snapshot

text \<open>
  The loop over \<^verbatim>\<open>new_alerts.items()\<close>; the first argument is the whole of
  \<^verbatim>\<open>old_alerts\<close>, the second the items still to visit, the third the two result
  dicts so far.
\<close>

fun detect_loop :: "snapshot \<Rightarrow> snapshot \<Rightarrow> changes \<Rightarrow> error + changes" where
  "detect_loop old_alerts [] acc = Inr acc"
| "detect_loop old_alerts ((alert_name, alert_info) # rest) acc =
     (case map_of old_alerts alert_name of
        None \<Rightarrow> detect_loop old_alerts rest acc
      | Some old_alert_info \<Rightarrow>
          (case county_code_set old_alert_info of
             Inl e \<Rightarrow> Inl e
           | Inr old_county_codes \<Rightarrow>
               (case county_code_set alert_info of
                  Inl e \<Rightarrow> Inl e
                | Inr new_county_codes \<Rightarrow>
                    (let added_counties = clean_code ` (new_county_codes - old_county_codes);
                         removed_counties = clean_code ` (old_county_codes - new_county_codes)
                     in if added_counties \<noteq> {} \<or> removed_counties \<noteq> {}
                        then detect_loop old_alerts rest
                               \<lparr>changes_detected =
                                  AList.update alert_name
                                    \<lparr>old_codes = old_county_codes, added = added_counties,
                                     removed = removed_counties\<rparr>
                                    (changes_detected acc),
                                alerts_with_changed_counties =
                                  AList.update alert_name alert_info
                                    (alerts_with_changed_counties acc)\<rparr>
                        else detect_loop old_alerts rest acc))))"

definition detect_county_changes :: "snapshot \<Rightarrow> snapshot \<Rightarrow> error + changes" where
  "detect_county_changes old_alerts new_alerts =
     detect_loop old_alerts new_alerts
       \<lparr>changes_detected = [], alerts_with_changed_counties = []\<rparr>"

section \<open>Zone fetcher\<close>

text \<open>
  A payload is the list \<^verbatim>\<open>data['features']\<close>, each feature given by its
  \<^verbatim>\<open>properties\<close>. The network is outside the program: \<open>http_result\<close> is the outcome of
  the \<^verbatim>\<open>try\<close> block of \<^verbatim>\<open>fetch_county_alerts\<close> for one zone, either one of the three
  exception classes the function catches or the decoded body (\<open>None\<close> when the body is
  not a dict with a \<^verbatim>\<open>features\<close> key).
\<close>

type_synonym payload = "properties list"

datatype http_result = Timeout | RequestException | UnexpectedError | Json "payload option"

definition fetch_county_alerts :: "(string \<Rightarrow> http_result) \<Rightarrow> string \<Rightarrow> string \<times> payload option" where
  "fetch_county_alerts session_get cc =
     (case session_get cc of
        Json (Some data) \<Rightarrow> (cc, Some data)
      | Json None \<Rightarrow> (cc, None)
      | Timeout \<Rightarrow> (cc, None)
      | RequestException \<Rightarrow> (cc, None)
      | UnexpectedError \<Rightarrow> (cc, None))"

text \<open>
  \<^verbatim>\<open>ThreadPoolExecutor(max_workers=min(len(county_codes), self.max_workers))\<close> raises
  \<^verbatim>\<open>ValueError\<close> when its argument is not positive. One future is submitted per element
  of \<^verbatim>\<open>county_codes\<close>; \<open>as_completed\<close> is the order in which the futures finish, chosen
  by the scheduler, and each result is stored under its county code as it arrives.
\<close>

definition fetch_alerts_for_counties ::
  "int \<Rightarrow> (string \<Rightarrow> http_result) \<Rightarrow>
   ((string \<times> payload option) list \<Rightarrow> (string \<times> payload option) list) \<Rightarrow>
   string list \<Rightarrow> error + (string \<times> payload option) list" where
  "fetch_alerts_for_counties max_workers session_get as_completed county_codes =
     (if min (int (length county_codes)) max_workers \<le> 0 then Inl ValueError
      else Inr (fold (\<lambda>(cc, data) alerts_data. AList.update cc data alerts_data)
                  (as_completed (map (fetch_county_alerts session_get) county_codes)) []))"

section \<open>Alert normalizer and blocklist\<close>

text \<open>
  \<^verbatim>\<open>parse_alert_data\<close>, one record per feature. \<open>parse_time\<close> stands for
  \<^verbatim>\<open>dateutil.parser.parse\<close> followed by \<^verbatim>\<open>strftime\<close>, \<open>None\<close> when it raises.
\<close>

definition parse_feature :: "(string \<Rightarrow> string option) \<Rightarrow> string \<Rightarrow> properties \<Rightarrow> AlertData" where
  "parse_feature parse_time cc props =
     \<lparr>county_code = cc,
      severity = determine_severity props,
      description = (case props ''description'' of None \<Rightarrow> [] | Some d \<Rightarrow> d),
      end_time_utc =
        (case props ''ends'' of
           None \<Rightarrow> []
         | Some end_time_str \<Rightarrow>
             if end_time_str = [] then []
             else (case parse_time end_time_str of None \<Rightarrow> [] | Some t \<Rightarrow> t)),
      event = (case props ''event'' of None \<Rightarrow> ''Unknown Event'' | Some e \<Rightarrow> e),
      headline = Some (case props ''headline'' of None \<Rightarrow> [] | Some h \<Rightarrow> h),
      instruction = Some (case props ''instruction'' of None \<Rightarrow> [] | Some i \<Rightarrow> i)\<rparr>"

definition parse_alert_data :: "(string \<Rightarrow> string option) \<Rightarrow> payload \<Rightarrow> string \<Rightarrow> AlertData list" where
  "parse_alert_data parse_time api_data cc = map (parse_feature parse_time cc) api_data"

text \<open>
  The grouping loop of \<^verbatim>\<open>run\<close>: \<^verbatim>\<open>all_alerts[alert.event].append(alert)\<close>, the key
  created at the end of the dict when it is new.
\<close>

fun group_alerts :: "AlertData list \<Rightarrow> alerts \<Rightarrow> alerts" where
  "group_alerts [] all_alerts = all_alerts"
| "group_alerts (alert # rest) all_alerts =
     group_alerts rest
       (case map_of all_alerts (event alert) of
          None \<Rightarrow> AList.update (event alert) [alert] all_alerts
        | Some l \<Rightarrow> AList.update (event alert) (l @ [alert]) all_alerts)"

definition collect_alerts :: "(string \<Rightarrow> string option) \<Rightarrow> (string \<times> payload option) list \<Rightarrow> alerts" where
  "collect_alerts parse_time alerts_data =
     fold (\<lambda>(cc, data) all_alerts.
             case data of
               None \<Rightarrow> all_alerts
             | Some d \<Rightarrow> group_alerts (parse_alert_data parse_time d cc) all_alerts)
          alerts_data []"

text \<open>\<^verbatim>\<open>filter_blocked_alerts\<close>; \<open>fnmatch\<close> is the standard library's glob match.\<close>

definition filter_blocked_alerts :: "(string \<Rightarrow> string \<Rightarrow> bool) \<Rightarrow> alerts \<Rightarrow> string list \<Rightarrow> alerts" where
  "filter_blocked_alerts fnmatch als blocked =
     filter (\<lambda>(alert_type, alert_list). \<not> list_ex (\<lambda>b. fnmatch alert_type b) blocked) als"

section \<open>State store\<close>

text \<open>
  The state dict, with the five keys \<^verbatim>\<open>load_state\<close> creates; \<^verbatim>\<open>.get\<close> on a key the file
  lacks reads as the empty snapshot. The in-memory state holds records of either
  representation; the file holds JSON, so records there are JSON objects.
\<close>

record 'r state_of =
  last_alerts :: "(string \<times> 'r list) list"
  last_sayalert :: "(string \<times> 'r list) list"
  last_tailmessage :: "(string \<times> 'r list) list"
  last_allclear :: "(string \<times> 'r list) list"
  last_alert_script :: "(string \<times> 'r list) list"

type_synonym state = "pyrec state_of"
type_synonym json_state = "AlertData state_of"

text \<open>The data file: \<open>None\<close> when it does not exist.\<close>

type_synonym data_file = "json_state option"

record state_manager =
  state_cache :: state
  state_dirty :: bool

text \<open>
  \<^verbatim>\<open>json.dump\<close> writes a JSON object for a dict and raises \<^verbatim>\<open>TypeError\<close> on an
  \<^verbatim>\<open>AlertData\<close> instance (it is not JSON serializable); \<^verbatim>\<open>json.load\<close> reads every
  record back as a dict.
\<close>

fun dump_records :: "pyrec list \<Rightarrow> error + AlertData list" where
  "dump_records [] = Inr []"
| "dump_records (Dct d # rs) =
     (case dump_records rs of Inl e \<Rightarrow> Inl e | Inr ds \<Rightarrow> Inr (d # ds))"
| "dump_records (Obj a # rs) = Inl TypeError"

fun dump_snapshot :: "snapshot \<Rightarrow> error + alerts" where
  "dump_snapshot [] = Inr []"
| "dump_snapshot ((k, rs) # rest) =
     (case dump_records rs of
        Inl e \<Rightarrow> Inl e
      | Inr ds \<Rightarrow> (case dump_snapshot rest of Inl e \<Rightarrow> Inl e | Inr js \<Rightarrow> Inr ((k, ds) # js)))"

definition json_dump :: "state \<Rightarrow> error + json_state" where
  "json_dump st =
     (case dump_snapshot (last_alerts st) of Inl e \<Rightarrow> Inl e | Inr a \<Rightarrow>
     (case dump_snapshot (last_sayalert st) of Inl e \<Rightarrow> Inl e | Inr b \<Rightarrow>
     (case dump_snapshot (last_tailmessage st) of Inl e \<Rightarrow> Inl e | Inr c \<Rightarrow>
     (case dump_snapshot (last_allclear st) of Inl e \<Rightarrow> Inl e | Inr d \<Rightarrow>
     (case dump_snapshot (last_alert_script st) of Inl e \<Rightarrow> Inl e | Inr f \<Rightarrow>
        Inr \<lparr>last_alerts = a, last_sayalert = b, last_tailmessage = c, last_allclear = d,
             last_alert_script = f\<rparr>)))))"

definition load_snapshot :: "alerts \<Rightarrow> snapshot" where
  "load_snapshot js = map (\<lambda>(k, ds). (k, map Dct ds)) js"

definition json_load :: "json_state \<Rightarrow> state" where
  "json_load j =
     \<lparr>last_alerts = load_snapshot (last_alerts j),
      last_sayalert = load_snapshot (last_sayalert j),
      last_tailmessage = load_snapshot (last_tailmessage j),
      last_allclear = load_snapshot (last_allclear j),
      last_alert_script = load_snapshot (last_alert_script j)\<rparr>"

text \<open>\<^verbatim>\<open>load_state\<close>: the file's content, or the fresh state when there is no file.\<close>

definition load_state :: "data_file \<Rightarrow> state \<times> state_manager" where
  "load_state file =
     (let st = (case file of
                  Some j \<Rightarrow> json_load j
                | None \<Rightarrow> \<lparr>last_alerts = [], last_sayalert = [], last_tailmessage = [],
                            last_allclear = [], last_alert_script = []\<rparr>)
      in (st, \<lparr>state_cache = st, state_dirty = False\<rparr>))"

text \<open>
  \<^verbatim>\<open>save_state\<close> only updates the cache and marks it dirty (the state holds no Python
  set, so the conversion of sets to lists copies it).
\<close>

definition save_state :: "state_manager \<Rightarrow> state \<Rightarrow> state_manager" where
  "save_state sm st = sm\<lparr>state_cache := st, state_dirty := True\<rparr>"

text \<open>
  \<^verbatim>\<open>flush_state\<close>: nothing when the cache is clean; otherwise dump to the temporary file
  and rename it over the data file. Any exception inside (the dump's \<^verbatim>\<open>TypeError\<close>, or
  an \<^verbatim>\<open>OSError\<close> of the file system, \<open>disk_error\<close>) removes the temporary file and is
  raised as \<^verbatim>\<open>FileIOError\<close>; the data file and the dirty flag are then as before.
\<close>

definition flush_state :: "bool \<Rightarrow> state_manager \<Rightarrow> data_file \<Rightarrow> (error + unit) \<times> state_manager \<times> data_file" where
  "flush_state disk_error sm file =
     (if \<not> state_dirty sm then (Inr (), sm, file)
      else if disk_error then (Inl FileIOError, sm, file)
      else (case json_dump (state_cache sm) of
              Inl e \<Rightarrow> (Inl FileIOError, sm, file)
            | Inr j \<Rightarrow> (Inr (), sm\<lparr>state_dirty := False\<rparr>, Some j)))"

section \<open>Decision engine\<close>

record config =
  enabled :: bool
  say_alert :: bool
  say_all_clear :: bool
  max_alerts :: int
  county_configs :: "string list"
  blocked_events :: "string list"

text \<open>
  What lies outside the core, as the run meets it: the network and the scheduler of the
  worker pool, the time parser, the glob match, an exception escaping one of the four
  calls to the announcer and the notification service (\<open>None\<close> when the call returns),
  and a failing file system.
\<close>

record env =
  session_get :: "string \<Rightarrow> http_result"
  as_completed :: "(string \<times> payload option) list \<Rightarrow> (string \<times> payload option) list"
  parse_time :: "string \<Rightarrow> string option"
  fnmatch :: "string \<Rightarrow> string \<Rightarrow> bool"
  say_alerts_exc :: "error option"
  send_alert_notification_exc :: "string \<Rightarrow> error option"
  say_all_clear_exc :: "error option"
  send_all_clear_notification_exc :: "error option"
  disk_error :: bool

datatype decision = EmitAlert | EmitAllClear | NoDecision

text \<open>The current cycle's mapping as it is stored in the state: the same objects.\<close>

definition as_snapshot :: "alerts \<Rightarrow> snapshot" where
  "as_snapshot als = map (\<lambda>(k, l). (k, map Obj l)) als"

text \<open>The notification loop of \<^verbatim>\<open>_handle_active_alerts\<close>.\<close>

fun send_notifications :: "env \<Rightarrow> alerts \<Rightarrow> error + unit" where
  "send_notifications env [] = Inr ()"
| "send_notifications env ((alert_type, alert_list) # rest) =
     (case max_severity alert_list of
        Inl e \<Rightarrow> Inl e
      | Inr sev \<Rightarrow> (case send_alert_notification_exc env alert_type of
                      Some e \<Rightarrow> Inl e
                    | None \<Rightarrow> send_notifications env rest))"

text \<open>
  \<^verbatim>\<open>_handle_active_alerts\<close>. The whole body is inside \<^verbatim>\<open>try\<close> \<dots> \<^verbatim>\<open>except Exception\<close>,
  which logs: an exception ends the body where it is raised and the method returns. The
  decision is the announcement the method calls for.
\<close>

definition handle_active_alerts :: "config \<Rightarrow> env \<Rightarrow> state \<Rightarrow> alerts \<Rightarrow> changes \<Rightarrow> state \<times> decision" where
  "handle_active_alerts cfg env st als ch =
     (if say_alert cfg \<and> (changes_detected ch \<noteq> [] \<or> last_sayalert st = [])
      then (case say_alerts_exc env of
              Some e \<Rightarrow> (st, EmitAlert)
            | None \<Rightarrow>
                (case send_notifications env als of
                   Inl e \<Rightarrow> (st\<lparr>last_sayalert := as_snapshot als\<rparr>, EmitAlert)
                 | Inr u \<Rightarrow> (st\<lparr>last_sayalert := as_snapshot als\<rparr>, EmitAlert)))
      else (case send_notifications env als of
              Inl e \<Rightarrow> (st, NoDecision)
            | Inr u \<Rightarrow> (st, NoDecision)))"

text \<open>
  \<^verbatim>\<open>counties.extend([alert["county_code"] for alert in alert_list])\<close> over
  \<^verbatim>\<open>old_alerts.values()\<close>.
\<close>

fun record_codes :: "pyrec list \<Rightarrow> error + string list" where
  "record_codes [] = Inr []"
| "record_codes (r # rs) =
     (case getitem_county_code r of
        Inl e \<Rightarrow> Inl e
      | Inr c \<Rightarrow> (case record_codes rs of Inl e \<Rightarrow> Inl e | Inr cs \<Rightarrow> Inr (c # cs)))"

fun old_counties :: "snapshot \<Rightarrow> error + string list" where
  "old_counties [] = Inr []"
| "old_counties ((k, alert_list) # rest) =
     (case record_codes alert_list of
        Inl e \<Rightarrow> Inl e
      | Inr cs \<Rightarrow> (case old_counties rest of Inl e \<Rightarrow> Inl e | Inr ds \<Rightarrow> Inr (cs @ ds)))"

text \<open>\<^verbatim>\<open>_handle_all_clear\<close>, inside the same kind of \<^verbatim>\<open>try\<close> \<dots> \<^verbatim>\<open>except Exception\<close>.\<close>

definition handle_all_clear :: "config \<Rightarrow> env \<Rightarrow> state \<Rightarrow> snapshot \<Rightarrow> state \<times> decision" where
  "handle_all_clear cfg env st old_alerts =
     (if old_alerts \<noteq> [] \<and> say_all_clear cfg
      then (case say_all_clear_exc env of
              Some e \<Rightarrow> (st, EmitAllClear)
            | None \<Rightarrow>
                (case old_counties old_alerts of
                   Inl e \<Rightarrow> (st, EmitAllClear)
                 | Inr counties \<Rightarrow>
                     (case send_all_clear_notification_exc env of
                        Some e \<Rightarrow> (st, EmitAllClear)
                      | None \<Rightarrow> (st\<lparr>last_allclear := []\<rparr>, EmitAllClear))))
      else (st, NoDecision))"

text \<open>
  Lines 68 to 89 of \<^verbatim>\<open>run\<close>: fetch, parse and group, filter, sort. The client is built
  by \<^verbatim>\<open>NWSAPIClient()\<close>, so \<^verbatim>\<open>max_workers\<close> is 10.
\<close>

definition current_alerts :: "config \<Rightarrow> env \<Rightarrow> error + alerts" where
  "current_alerts cfg env =
     (case fetch_alerts_for_counties 10 (session_get env) (as_completed env) (county_configs cfg) of
        Inl e \<Rightarrow> Inl e
      | Inr alerts_data \<Rightarrow>
          sort_alerts_by_severity
            (filter_blocked_alerts (fnmatch env) (collect_alerts (parse_time env) alerts_data)
               (blocked_events cfg)))"

text \<open>
  The \<^verbatim>\<open>try\<close> block of \<^verbatim>\<open>run\<close>. An exception (\<open>Inl\<close>) is logged and raised again by the
  \<^verbatim>\<open>except\<close> clause; it can only come from the steps before the handlers, so the state
  and the cache are then as they were.
\<close>

definition run_try :: "config \<Rightarrow> env \<Rightarrow> state \<Rightarrow> state_manager \<Rightarrow> error + (state \<times> state_manager \<times> decision)" where
  "run_try cfg env st sm =
     (if county_configs cfg = [] then Inr (st, sm, NoDecision)
      else (case current_alerts cfg env of
              Inl e \<Rightarrow> Inl e
            | Inr sorted_alerts \<Rightarrow>
                (let old_alerts = last_alerts st in
                 case detect_county_changes old_alerts (as_snapshot sorted_alerts) of
                   Inl e \<Rightarrow> Inl e
                 | Inr ch \<Rightarrow>
                     (let (st1, d) = (if sorted_alerts \<noteq> []
                                      then handle_active_alerts cfg env st sorted_alerts ch
                                      else handle_all_clear cfg env st old_alerts);
                          st2 = st1\<lparr>last_alerts := as_snapshot sorted_alerts\<rparr>
                      in Inr (st2, save_state sm st2, d)))))"

text \<open>\<^verbatim>\<open>cleanup\<close>: the flush inside \<^verbatim>\<open>try\<close> \<dots> \<^verbatim>\<open>except Exception\<close>, which logs.\<close>

definition cleanup :: "env \<Rightarrow> state_manager \<Rightarrow> data_file \<Rightarrow> state_manager \<times> data_file" where
  "cleanup env sm file =
     (case flush_state (disk_error env) sm file of
        (Inl e, sm', file') \<Rightarrow> (sm', file')
      | (Inr u, sm', file') \<Rightarrow> (sm', file'))"

text \<open>
  \<^verbatim>\<open>run\<close>: the early return when disabled is before the \<^verbatim>\<open>try\<close>; otherwise the
  \<^verbatim>\<open>finally\<close> clause runs \<^verbatim>\<open>cleanup\<close> whether the block returned or raised.
\<close>

definition run ::
  "config \<Rightarrow> env \<Rightarrow> state \<Rightarrow> state_manager \<Rightarrow> data_file \<Rightarrow>
   (error + decision) \<times> state \<times> state_manager \<times> data_file" where
  "run cfg env st sm file =
     (if \<not> enabled cfg then (Inr NoDecision, st, sm, file)
      else (case run_try cfg env st sm of
              Inl e \<Rightarrow> (let (sm', file') = cleanup env sm file in (Inl e, st, sm', file'))
            | Inr (st', sm', d) \<Rightarrow>
                (let (sm'', file') = cleanup env sm' file in (Inr d, st', sm'', file'))))"

text \<open>
  One polling cycle is one process, \<^verbatim>\<open>main\<close>: \<^verbatim>\<open>with SkywarnPlus() as app: app.run()\<close>.
  The constructor loads the state, and \<^verbatim>\<open>__exit__\<close> runs \<^verbatim>\<open>cleanup\<close> once more. The
  result is what \<^verbatim>\<open>run\<close> returned or raised, and the data file the process leaves.
\<close>

definition main :: "config \<Rightarrow> env \<Rightarrow> data_file \<Rightarrow> (error + decision) \<times> data_file" where
  "main cfg env file =
     (let (st, sm) = load_state file;
          (r, st', sm', file') = run cfg env st sm file;
          (sm'', file'') = cleanup env sm' file'
      in (r, file''))"

section \<open>Notions used to state the properties\<close>

text \<open>
  The county codes a list of records contributes, whatever the representation of the
  records; a snapshot all of whose records are JSON objects, the parameter type
  \<^verbatim>\<open>Dict[str, List[Dict]]\<close> of \<^verbatim>\<open>detect_county_changes\<close>; and the entry the
  change detector is expected to hold for an AlertType.
\<close>

fun rec_data :: "pyrec \<Rightarrow> AlertData" where
  "rec_data (Obj a) = a"
| "rec_data (Dct d) = d"

definition codes :: "pyrec list \<Rightarrow> string set" where
  "codes l = set (map (\<lambda>r. county_code (rec_data r)) l)"

definition all_dicts :: "snapshot \<Rightarrow> bool" where
  "all_dicts s = list_all (\<lambda>p. list_all is_dict (snd p)) s"

definition expected_change :: "snapshot \<Rightarrow> snapshot \<Rightarrow> string \<Rightarrow> county_change option" where
  "expected_change old_alerts new_alerts name =
     (case map_of new_alerts name of
        None \<Rightarrow> None
      | Some ni \<Rightarrow>
          (case map_of old_alerts name of
             None \<Rightarrow> None
           | Some oi \<Rightarrow>
               if codes oi \<noteq> codes ni
               then Some \<lparr>old_codes = codes oi, added = clean_code ` (codes ni - codes oi),
                          removed = clean_code ` (codes oi - codes ni)\<rparr>
               else None))"

text \<open>A record for the examples, with the fields that matter.\<close>

definition example_alert :: "string \<Rightarrow> int \<Rightarrow> string \<Rightarrow> AlertData" where
  "example_alert cc sev ev =
     \<lparr>county_code = cc, severity = sev, description = [], end_time_utc = [], event = ev,
      headline = Some [], instruction = Some []\<rparr>"

definition example_alerts :: alerts where
  "example_alerts =
     [(''Flood Watch'', [example_alert ''A'' 3 ''Flood Watch'']),
      (''Tornado Warning'',
         [example_alert ''A'' 4 ''Tornado Warning'', example_alert ''B'' 4 ''Tornado Warning'']),
      (''Tornado Watch'', [example_alert ''B'' 3 ''Tornado Watch''])]"

definition example_old :: snapshot where
  "example_old = [(''Tornado Warning'', [Dct (example_alert ''A'' 4 ''Tornado Warning'')])]"

definition example_new :: snapshot where
  "example_new =
     [(''Tornado Warning'',
         [Dct (example_alert ''A'' 4 ''Tornado Warning''),
          Dct (example_alert ''B'' 4 ''Tornado Warning'')]),
      (''Flood Watch'', [Dct (example_alert ''A'' 3 ''Flood Watch'')])]"

text \<open>
  The scenario of the specification: zones A and B, a Tornado Warning in A and nothing
  in B; every collaborator working, every switch on.
\<close>

definition tornado_warning :: properties where
  "tornado_warning = [''event'' \<mapsto> ''Tornado Warning'']"

definition scenario_env :: env where
  "scenario_env =
     \<lparr>session_get = (\<lambda>c. if c = ''A'' then Json (Some [tornado_warning]) else Json (Some [])),
      as_completed = (\<lambda>fs. fs), parse_time = (\<lambda>s. Some s), fnmatch = (\<lambda>n p. n = p),
      say_alerts_exc = None, send_alert_notification_exc = (\<lambda>t. None),
      say_all_clear_exc = None, send_all_clear_notification_exc = None,
      disk_error = False\<rparr>"

definition quiet_env :: env where
  "quiet_env = scenario_env\<lparr>session_get := (\<lambda>c. Json (Some []))\<rparr>"

definition scenario_config :: config where
  "scenario_config =
     \<lparr>enabled = True, say_alert = True, say_all_clear = True, max_alerts = 99,
      county_configs = [''A'', ''B''], blocked_events = []\<rparr>"

text \<open>
  Two data files with records as JSON objects: one left after a Tornado Warning in A was
  announced, one after a Flood Advisory in A was announced.
\<close>

definition tornado_file :: json_state where
  "tornado_file =
     \<lparr>last_alerts = [(''Tornado Warning'', [example_alert ''A'' 4 ''Tornado Warning''])],
      last_sayalert = [(''Tornado Warning'', [example_alert ''A'' 4 ''Tornado Warning''])],
      last_tailmessage = [], last_allclear = [], last_alert_script = []\<rparr>"

definition flood_file :: json_state where
  "flood_file =
     \<lparr>last_alerts = [(''Flood Advisory'', [example_alert ''A'' 2 ''Flood Advisory''])],
      last_sayalert = [(''Flood Advisory'', [example_alert ''A'' 2 ''Flood Advisory''])],
      last_tailmessage = [], last_allclear = [], last_alert_script = []\<rparr>"

definition scenario_alerts :: alerts where
  "scenario_alerts = [(''Tornado Warning'', [example_alert ''A'' 4 ''Tornado Warning''])]"

text \<open>The state in memory at the end of the scenario's first cycle.\<close>

definition scenario_state :: state where
  "scenario_state =
     \<lparr>last_alerts = as_snapshot scenario_alerts, last_sayalert = as_snapshot scenario_alerts,
      last_tailmessage = [], last_allclear = [], last_alert_script = []\<rparr>"

text \<open>A quiet feed on a file system that refuses the write.\<close>

definition disk_fail_env :: env where
  "disk_fail_env = quiet_env\<lparr>disk_error := True\<rparr>"

text \<open>Zone B times out, and the futures complete in reverse order of submission.\<close>

definition failing_zone_env :: env where
  "failing_zone_env =
     scenario_env\<lparr>session_get := (\<lambda>c. if c = ''A'' then Json (Some [tornado_warning]) else Timeout),
                  as_completed := rev\<rparr>"

text \<open>
  The Tornado Warning spread to both zones, the current mapping of that cycle, and the
  change detector's report for the coverage growing from A to A and B.
\<close>

definition spread_env :: env where
  "spread_env = scenario_env\<lparr>session_get := (\<lambda>c. Json (Some [tornado_warning]))\<rparr>"

definition spread_alerts :: alerts where
  "spread_alerts =
     [(''Tornado Warning'',
         [example_alert ''A'' 4 ''Tornado Warning'', example_alert ''B'' 4 ''Tornado Warning''])]"

definition coverage_report :: changes where
  "coverage_report =
     \<lparr>changes_detected =
        [(''Tornado Warning'', \<lparr>old_codes = {''A''}, added = {''B''}, removed = {}\<rparr>)],
      alerts_with_changed_counties =
        [(''Tornado Warning'',
            [Dct (example_alert ''A'' 4 ''Tornado Warning''),
             Dct (example_alert ''B'' 4 ''Tornado Warning'')])]\<rparr>"

text \<open>
  The scenario with an announcer and a notification service whose calls raise, and the
  state in memory at the end of its first cycle.
\<close>

definition failing_announcer_env :: env where
  "failing_announcer_env =
     scenario_env\<lparr>say_alerts_exc := Some OtherError,
                  send_alert_notification_exc := (\<lambda>t. Some OtherError),
                  say_all_clear_exc := Some OtherError,
                  send_all_clear_notification_exc := Some OtherError\<rparr>"

definition unannounced_state :: state where
  "unannounced_state =
     \<lparr>last_alerts = as_snapshot scenario_alerts, last_sayalert = [],
      last_tailmessage = [], last_allclear = [], last_alert_script = []\<rparr>"

section \<open>Severity resolution: the table\<close>

text \<open>
  C7. The severity of a feed entry is the value of the provider's severity keyword when
  that is one of Extreme, Severe, Moderate, Minor, Unknown (4, 3, 2, 1, 0); otherwise the
  value of the first of Warning, Watch, Advisory, Statement (4, 3, 2, 1) that occurs in
  the event name; otherwise 0.
\<close>

theorem determine_severity_table:
  "determine_severity props =
     (let sev = props ''severity'';
          ev = (case props ''event'' of None \<Rightarrow> [] | Some e \<Rightarrow> e)
      in if sev = Some ''Extreme'' then 4
         else if sev = Some ''Severe'' then 3
         else if sev = Some ''Moderate'' then 2
         else if sev = Some ''Minor'' then 1
         else if sev = Some ''Unknown'' then 0
         else if sublist ''Warning'' ev then 4
         else if sublist ''Watch'' ev then 3
         else if sublist ''Advisory'' ev then 2
         else if sublist ''Statement'' ev then 1
         else 0)"
  by (cases "props ''severity''")
     (simp_all add: determine_severity_def API_SEVERITY_MAPPING_def WORD_SEVERITY_MAPPING_def Let_def)

section \<open>Sorting by severity: order and stability\<close>

lemma fold_max_severity:
  "fold (\<lambda>b m. max m (severity b)) as x = Max (insert x (severity ` set as))"
proof (induction as arbitrary: x)
  case Nil
  then show ?case by simp
next
  case (Cons a as)
  have "Max (insert (max x (severity a)) (severity ` set as))
        = Max (insert x (insert (severity a) (severity ` set as)))"
    by (cases "set as = {}") (simp_all add: max.assoc)
  with Cons show ?case by simp
qed

lemma max_severity_Max: "l \<noteq> [] \<Longrightarrow> max_severity l = Inr (Max (severity ` set l))"
  by (cases l) (simp_all add: fold_max_severity)

lemma alert_severities_map:
  "\<forall>p \<in> set als. snd p \<noteq> [] \<Longrightarrow>
   alert_severities als = Inr (map (\<lambda>p. (fst p, Max (severity ` set (snd p)))) als)"
  by (induction als) (auto simp: max_severity_Max)

lemma insort_key_map:
  "insort_key f (g x) (map g xs) = map g (insort_key (\<lambda>a. f (g a)) x xs)"
  by (induction xs) simp_all

lemma sort_key_map: "sort_key f (map g xs) = map g (sort_key (\<lambda>a. f (g a)) xs)"
  by (induction xs) (simp_all add: insort_key_map)

lemma fold_update_append:
  "distinct (map fst als) \<Longrightarrow> set ys \<subseteq> set als \<Longrightarrow> distinct (map fst ys) \<Longrightarrow>
   fst ` set acc \<inter> fst ` set ys = {} \<Longrightarrow>
   fold (\<lambda>(alert_type, _) sorted_alerts.
           case map_of als alert_type of
             Some alert_list \<Rightarrow> AList.update alert_type alert_list sorted_alerts
           | None \<Rightarrow> sorted_alerts)
        (map (\<lambda>p. (fst p, h p)) ys) acc = acc @ ys"
proof (induction ys arbitrary: acc)
  case Nil
  then show ?case by simp
next
  case (Cons y ys)
  obtain t l where y: "y = (t, l)" by (cases y)
  from Cons.prems y have m: "map_of als t = Some l" by simp
  from Cons.prems y have notin: "t \<notin> fst ` set acc" by auto
  then have upd: "AList.update t l acc = acc @ [(t, l)]"
    by (induction acc) (auto simp: image_iff)
  have "fst ` set (acc @ [(t, l)]) \<inter> fst ` set ys = {}"
    using Cons.prems y by auto
  with Cons.IH[of "acc @ [(t, l)]"] Cons.prems
  have ih: "fold (\<lambda>(alert_type, _) sorted_alerts.
           case map_of als alert_type of
             Some alert_list \<Rightarrow> AList.update alert_type alert_list sorted_alerts
           | None \<Rightarrow> sorted_alerts)
        (map (\<lambda>p. (fst p, h p)) ys) (acc @ [(t, l)]) = (acc @ [(t, l)]) @ ys"
    by simp
  show ?case by (simp add: y m upd ih)
qed

lemma sort_alerts_eq:
  assumes "distinct (map fst als)" "\<forall>p \<in> set als. snd p \<noteq> []"
  shows "sort_alerts_by_severity als =
           Inr (sort_key (\<lambda>p. - Max (severity ` set (snd p))) als)"
proof -
  let ?g = "\<lambda>p. (fst p, Max (severity ` set (snd p)))"
  let ?ys = "sort_key (\<lambda>p. - Max (severity ` set (snd p))) als"
  have 1: "alert_severities als = Inr (map ?g als)"
    using assms(2) by (rule alert_severities_map)
  have 2: "sort_key (\<lambda>x. - snd x) (map ?g als) = map ?g ?ys"
    by (simp add: sort_key_map)
  have 3: "set ?ys \<subseteq> set als" by simp
  have "mset (map fst ?ys) = mset (map fst als)" by simp
  then have 4: "distinct (map fst ?ys)"
    using assms(1) by (metis mset_eq_imp_distinct_iff)
  have "fold (\<lambda>(alert_type, _) sorted_alerts.
           case map_of als alert_type of
             Some alert_list \<Rightarrow> AList.update alert_type alert_list sorted_alerts
           | None \<Rightarrow> sorted_alerts)
        (map ?g ?ys) [] = [] @ ?ys"
    using assms(1) 3 4 by (intro fold_update_append) simp_all
  then show ?thesis
    by (simp add: sort_alerts_by_severity_def 1 2 comp_def)
qed

text \<open>
  C6. On a mapping in which every AlertType has at least one record,
  \<^verbatim>\<open>sort_alerts_by_severity\<close> returns the same bindings, in descending order of the
  maximum severity of each type's records, types of equal maximum severity keeping their
  input order.
\<close>

theorem sort_alerts_by_severity_ordered:
  assumes "distinct (map fst als)" and "\<forall>p \<in> set als. snd p \<noteq> []"
  shows "\<exists>res. sort_alerts_by_severity als = Inr res
           \<and> set res = set als \<and> distinct (map fst res)
           \<and> sorted_wrt (\<lambda>a b. Max (severity ` set (snd a)) \<ge> Max (severity ` set (snd b))) res
           \<and> (\<forall>k. filter (\<lambda>p. Max (severity ` set (snd p)) = k) res
                  = filter (\<lambda>p. Max (severity ` set (snd p)) = k) als)"
proof -
  let ?f = "\<lambda>p::string \<times> AlertData list. - Max (severity ` set (snd p))"
  let ?res = "sort_key ?f als"
  have e: "sort_alerts_by_severity als = Inr ?res"
    using assms by (rule sort_alerts_eq)
  have "mset (map fst ?res) = mset (map fst als)" by simp
  then have d: "distinct (map fst ?res)"
    using assms(1) by (metis mset_eq_imp_distinct_iff)
  have "sorted (map ?f ?res)" by (rule sorted_sort_key)
  then have s: "sorted_wrt (\<lambda>a b. Max (severity ` set (snd a)) \<ge> Max (severity ` set (snd b))) ?res"
    by (simp add: sorted_wrt_map)
  have st: "filter (\<lambda>p. Max (severity ` set (snd p)) = k) ?res
          = filter (\<lambda>p. Max (severity ` set (snd p)) = k) als" for k
    using sort_key_stable[of ?f "- k" als] by simp
  from e d s st show ?thesis by simp
qed

theorem sort_alerts_by_severity_ordered_witness:
  "distinct (map fst example_alerts) \<and> list_all (\<lambda>p. snd p \<noteq> []) example_alerts
   \<and> (\<exists>res. sort_alerts_by_severity example_alerts = Inr res
           \<and> set res = set example_alerts \<and> distinct (map fst res)
           \<and> sorted_wrt (\<lambda>a b. Max (severity ` set (snd a)) \<ge> Max (severity ` set (snd b))) res
           \<and> (\<forall>k. filter (\<lambda>p. Max (severity ` set (snd p)) = k) res
                  = filter (\<lambda>p. Max (severity ` set (snd p)) = k) example_alerts))"
proof -
  have h1: "distinct (map fst example_alerts)" by (simp add: example_alerts_def)
  have h2: "\<forall>p \<in> set example_alerts. snd p \<noteq> []" by (simp add: example_alerts_def)
  have h3: "list_all (\<lambda>p. snd p \<noteq> []) example_alerts" by (simp add: example_alerts_def)
  from sort_alerts_by_severity_ordered[OF h1 h2] h1 h3 show ?thesis by blast
qed

section \<open>Change detection: what is reported\<close>

lemma county_code_set_dicts: "list_all is_dict l \<Longrightarrow> county_code_set l = Inr (codes l)"
proof (induction l)
  case Nil
  then show ?case by (simp add: codes_def)
next
  case (Cons r l)
  then show ?case by (cases r) (simp_all add: codes_def)
qed

lemma all_dicts_lookup: "all_dicts s \<Longrightarrow> map_of s name = Some l \<Longrightarrow> list_all is_dict l"
  by (auto simp: all_dicts_def list_all_iff dest!: map_of_SomeD)

lemma diff_nonempty_iff: "(A - B \<noteq> {} \<or> B - A \<noteq> {}) \<longleftrightarrow> B \<noteq> A"
  by auto

lemma detect_loop_dicts:
  assumes "all_dicts old_alerts"
  shows "all_dicts rest \<Longrightarrow> distinct (map fst rest) \<Longrightarrow>
     \<exists>ch. detect_loop old_alerts rest acc = Inr ch \<and>
          map_of (changes_detected ch) =
            (\<lambda>name. case expected_change old_alerts rest name of
                       Some c \<Rightarrow> Some c
                     | None \<Rightarrow> map_of (changes_detected acc) name)"
proof (induction rest arbitrary: acc)
  case Nil
  then show ?case by (simp add: expected_change_def)
next
  case (Cons p rest)
  obtain n info where p: "p = (n, info)" by (cases p)
  from Cons.prems p have rest: "all_dicts rest" "distinct (map fst rest)"
    and info: "list_all is_dict info" and n: "map_of rest n = None"
    by (auto simp: all_dicts_def map_of_eq_None_iff)
  show ?case
  proof (cases "map_of old_alerts n")
    case None
    from Cons.IH[OF rest, of acc] obtain ch where
      ch: "detect_loop old_alerts rest acc = Inr ch"
        "map_of (changes_detected ch) =
            (\<lambda>name. case expected_change old_alerts rest name of
                       Some c \<Rightarrow> Some c
                     | None \<Rightarrow> map_of (changes_detected acc) name)" by blast
    have "expected_change old_alerts (p # rest) = expected_change old_alerts rest"
      using None n by (auto simp: expected_change_def p fun_eq_iff)
    with ch None show ?thesis by (simp add: p)
  next
    case (Some oi)
    have oi: "list_all is_dict oi" using all_dicts_lookup[OF assms Some] .
    show ?thesis
    proof (cases "codes oi = codes info")
      case True
      from Cons.IH[OF rest, of acc] obtain ch where
        ch: "detect_loop old_alerts rest acc = Inr ch"
          "map_of (changes_detected ch) =
              (\<lambda>name. case expected_change old_alerts rest name of
                         Some c \<Rightarrow> Some c
                       | None \<Rightarrow> map_of (changes_detected acc) name)" by blast
      have "expected_change old_alerts (p # rest) = expected_change old_alerts rest"
        using Some True n by (auto simp: expected_change_def p fun_eq_iff)
      with ch Some True show ?thesis
        by (simp add: p county_code_set_dicts oi info)
    next
      case False
      let ?c = "\<lparr>old_codes = codes oi, added = clean_code ` (codes info - codes oi),
                 removed = clean_code ` (codes oi - codes info)\<rparr>"
      let ?acc = "\<lparr>changes_detected = AList.update n ?c (changes_detected acc),
                   alerts_with_changed_counties =
                     AList.update n info (alerts_with_changed_counties acc)\<rparr>"
      from Cons.IH[OF rest, of ?acc] obtain ch where
        ch: "detect_loop old_alerts rest ?acc = Inr ch"
          "map_of (changes_detected ch) =
              (\<lambda>name. case expected_change old_alerts rest name of
                         Some c \<Rightarrow> Some c
                       | None \<Rightarrow> map_of (changes_detected ?acc) name)" by blast
      have step: "detect_loop old_alerts (p # rest) acc = detect_loop old_alerts rest ?acc"
        using Some False
        by (simp add: p county_code_set_dicts oi info diff_nonempty_iff Let_def)
      have "(\<lambda>name. case expected_change old_alerts rest name of
                         Some c \<Rightarrow> Some c
                       | None \<Rightarrow> map_of (changes_detected ?acc) name)
          = (\<lambda>name. case expected_change old_alerts (p # rest) name of
                       Some c \<Rightarrow> Some c
                     | None \<Rightarrow> map_of (changes_detected acc) name)"
        using Some False n
        by (auto simp: expected_change_def p fun_eq_iff update_conv' split: option.splits)
      with ch step show ?thesis by simp
    qed
  qed
qed

text \<open>
  On snapshots of JSON records, the parameter type the function declares,
  \<^verbatim>\<open>detect_county_changes\<close> reports an AlertType exactly when both snapshots have it and
  its sets of county codes differ; the entry holds the added codes (current minus
  previous) and the removed codes (previous minus current) after the cleaning of their
  characters, and one of the two is not empty.
\<close>

lemma detect_county_changes_on_dicts:
  assumes "all_dicts old_alerts" and "all_dicts new_alerts" and "distinct (map fst new_alerts)"
  shows "\<exists>ch. detect_county_changes old_alerts new_alerts = Inr ch
          \<and> (\<forall>name. name \<in> fst ` set (changes_detected ch) \<longleftrightarrow>
                (\<exists>oi ni. map_of old_alerts name = Some oi \<and> map_of new_alerts name = Some ni
                          \<and> codes oi \<noteq> codes ni))
          \<and> (\<forall>name c. map_of (changes_detected ch) name = Some c \<longrightarrow>
                (\<exists>oi ni. map_of old_alerts name = Some oi \<and> map_of new_alerts name = Some ni
                   \<and> added c = clean_code ` (codes ni - codes oi)
                   \<and> removed c = clean_code ` (codes oi - codes ni)
                   \<and> (added c \<noteq> {} \<or> removed c \<noteq> {})))"
proof -
  have e: "(\<lambda>name. case expected_change old_alerts new_alerts name of
                    Some c \<Rightarrow> Some c | None \<Rightarrow> None)
           = expected_change old_alerts new_alerts"
    by (auto simp: fun_eq_iff split: option.splits)
  from detect_loop_dicts[OF assms, of "\<lparr>changes_detected = [], alerts_with_changed_counties = []\<rparr>"]
  obtain ch where ch0: "detect_loop old_alerts new_alerts
                         \<lparr>changes_detected = [], alerts_with_changed_counties = []\<rparr> = Inr ch"
    and m0: "map_of (changes_detected ch) =
            (\<lambda>name. case expected_change old_alerts new_alerts name of
                       Some c \<Rightarrow> Some c
                     | None \<Rightarrow> map_of (changes_detected
                          \<lparr>changes_detected = [], alerts_with_changed_counties = []\<rparr>) name)"
    by blast
  from ch0 have ch: "detect_county_changes old_alerts new_alerts = Inr ch"
    by (simp add: detect_county_changes_def)
  from m0 have m: "map_of (changes_detected ch) = expected_change old_alerts new_alerts"
    by (auto simp: fun_eq_iff split: option.splits)
  have 1: "name \<in> fst ` set (changes_detected ch) \<longleftrightarrow>
                (\<exists>oi ni. map_of old_alerts name = Some oi \<and> map_of new_alerts name = Some ni
                          \<and> codes oi \<noteq> codes ni)" for name
  proof -
    have "name \<in> fst ` set (changes_detected ch) \<longleftrightarrow> map_of (changes_detected ch) name \<noteq> None"
      by (simp add: map_of_eq_None_iff)
    then show ?thesis
      by (auto simp: m expected_change_def split: option.splits)
  qed
  have 2: "map_of (changes_detected ch) name = Some c \<Longrightarrow>
                (\<exists>oi ni. map_of old_alerts name = Some oi \<and> map_of new_alerts name = Some ni
                   \<and> added c = clean_code ` (codes ni - codes oi)
                   \<and> removed c = clean_code ` (codes oi - codes ni)
                   \<and> (added c \<noteq> {} \<or> removed c \<noteq> {}))" for name c
    by (auto simp: m expected_change_def split: option.splits if_splits)
  from ch 1 2 show ?thesis by blast
qed

section \<open>Decision engine: the alert decision\<close>

lemmas cycle_defs = main_def load_state_def run_def run_try_def current_alerts_def
    fetch_alerts_for_counties_def fetch_county_alerts_def collect_alerts_def parse_alert_data_def
    parse_feature_def determine_severity_def API_SEVERITY_MAPPING_def WORD_SEVERITY_MAPPING_def
    filter_blocked_alerts_def sort_alerts_by_severity_def detect_county_changes_def as_snapshot_def
    handle_active_alerts_def handle_all_clear_def save_state_def cleanup_def flush_state_def
    json_dump_def json_load_def load_snapshot_def Let_def sublist_code

lemmas example_defs = scenario_config_def scenario_env_def quiet_env_def tornado_warning_def
    tornado_file_def flood_file_def example_alert_def scenario_alerts_def

lemmas example_defs3 = spread_env_def spread_alerts_def coverage_report_def
    failing_announcer_env_def unannounced_state_def example_old_def example_new_def

lemma current_alerts_configs: "current_alerts cfg env = Inr als \<Longrightarrow> county_configs cfg \<noteq> []"
  by (auto simp: current_alerts_def fetch_alerts_for_counties_def)



text \<open>
  In a cycle whose snapshot is not empty and whose change detector returns a report, the
  decision and the state are those of \<^verbatim>\<open>_handle_active_alerts\<close> on that report.
\<close>

lemma run_try_active:
  assumes "current_alerts cfg env = Inr als" and "als \<noteq> []"
      and "detect_county_changes (last_alerts st) (as_snapshot als) = Inr ch"
  shows "run_try cfg env st sm =
           Inr ((fst (handle_active_alerts cfg env st als ch))\<lparr>last_alerts := as_snapshot als\<rparr>,
                save_state sm
                  ((fst (handle_active_alerts cfg env st als ch))\<lparr>last_alerts := as_snapshot als\<rparr>),
                snd (handle_active_alerts cfg env st als ch))"
proof -
  have c: "county_configs cfg \<noteq> []" using assms(1) by (rule current_alerts_configs)
  show ?thesis using assms c by (simp add: run_try_def Let_def split_beta)
qed




section \<open>Decision engine: across cycles\<close>

text \<open>
  C3. Two consecutive cycles with identical feed data, starting without a data file: both
  take the alert decision. The first cycle's snapshot holds \<^verbatim>\<open>AlertData\<close> instances, the
  flush fails on them and \<^verbatim>\<open>cleanup\<close> logs the failure, so the second cycle starts from
  the same missing file.
\<close>

theorem identical_feed_announced_twice:
  "main scenario_config scenario_env None = (Inr EmitAlert, None)
   \<and> main scenario_config scenario_env (snd (main scenario_config scenario_env None))
       = (Inr EmitAlert, None)"
  by (simp add: cycle_defs example_defs)

text \<open>
  C2. The all-clear cycle after an announced Tornado Warning: the decision is taken and
  the empty snapshot is written, but \<^verbatim>\<open>last_sayalert\<close> is still the announced snapshot
  (the handler assigns \<^verbatim>\<open>last_allclear\<close>). When the warning comes back in the next cycle,
  it is not announced.
\<close>

theorem all_clear_keeps_last_sayalert:
  "main scenario_config quiet_env (Some tornado_file)
     = (Inr EmitAllClear, Some (tornado_file\<lparr>last_alerts := []\<rparr>))
   \<and> last_sayalert (tornado_file\<lparr>last_alerts := []\<rparr>)
       = [(''Tornado Warning'', [example_alert ''A'' 4 ''Tornado Warning''])]
   \<and> fst (main scenario_config scenario_env (Some (tornado_file\<lparr>last_alerts := []\<rparr>)))
       = Inr NoDecision"
  by (simp add: cycle_defs example_defs)

section \<open>Change detection in the cycle\<close>

text \<open>
  C8. The Tornado Warning of zone A is on file and the current cycle finds it in A and B:
  the type is in both snapshots and its county codes differ. \<^verbatim>\<open>run\<close> hands the detector
  the current \<^verbatim>\<open>AlertData\<close> instances, the subscript \<^verbatim>\<open>info["county_code"]\<close> raises
  \<^verbatim>\<open>TypeError\<close> on them, and the cycle ends with that exception: the type is not reported
  as changed.
\<close>

theorem coverage_change_raises:
  "current_alerts scenario_config spread_env = Inr spread_alerts
   \<and> last_alerts (fst (load_state (Some tornado_file)))
       = [(''Tornado Warning'', [Dct (example_alert ''A'' 4 ''Tornado Warning'')])]
   \<and> detect_county_changes (last_alerts (fst (load_state (Some tornado_file))))
         (as_snapshot spread_alerts) = Inl TypeError
   \<and> main scenario_config spread_env (Some tornado_file) = (Inl TypeError, Some tornado_file)"
  by (simp add: cycle_defs example_defs example_defs3)

lemmas example_defs2 = scenario_state_def disk_fail_env_def failing_zone_env_def

section \<open>Decision engine: the all-clear decision\<close>

lemma detect_no_new: "detect_county_changes old_alerts [] =
    Inr \<lparr>changes_detected = [], alerts_with_changed_counties = []\<rparr>"
  by (simp add: detect_county_changes_def)

lemma all_clear_decision_iff:
  assumes "current_alerts cfg env = Inr []"
  shows "\<exists>st'. run_try cfg env st sm =
            Inr (st', save_state sm st',
                 if say_all_clear cfg \<and> last_alerts st \<noteq> [] then EmitAllClear else NoDecision)
          \<and> last_alerts st' = [] \<and> last_sayalert st' = last_sayalert st"
proof -
  have c: "county_configs cfg \<noteq> []" using assms by (rule current_alerts_configs)
  show ?thesis
    using assms c
    by (auto simp: run_try_def detect_no_new as_snapshot_def handle_all_clear_def Let_def
             split: option.splits sum.splits)
qed

section \<open>State store\<close>

lemma dump_records_Dct: "dump_records (map Dct ds) = Inr ds"
  by (induction ds) simp_all

lemma dump_load_snapshot: "dump_snapshot (load_snapshot js) = Inr js"
  by (induction js) (auto simp: load_snapshot_def dump_records_Dct)

lemma json_dump_load: "json_dump (json_load j) = Inr j"
  by (simp add: json_dump_def json_load_def dump_load_snapshot)

lemma save_flush_load:
  "load_state (snd (snd (flush_state False (save_state sm (json_load j)) file)))
     = (json_load j, \<lparr>state_cache = json_load j, state_dirty = False\<rparr>)"
  by (simp add: flush_state_def save_state_def json_dump_load load_state_def Let_def)


lemma flush_state_error: "fst (flush_state de sm file) = Inl e \<Longrightarrow>
    e = FileIOError \<and> flush_state de sm file = (Inl FileIOError, sm, file)"
  by (auto simp: flush_state_def split: if_splits sum.splits)

text \<open>
  C4, as the code has it. When the flush at the end of a cycle raises, the exception is
  \<^verbatim>\<open>FileIOError\<close> and it is caught inside \<^verbatim>\<open>cleanup\<close>: it does not reach the caller
  of \<^verbatim>\<open>run\<close>, which returns the cycle's decision; after \<^verbatim>\<open>run\<close> the data file is as it
  was before the flush, and the state is still in the cache, marked dirty.
\<close>

theorem flush_failure_logged_not_raised:
  assumes "enabled cfg" and "run_try cfg env st sm = Inr (st', sm', d)"
      and "fst (flush_state (disk_error env) sm' file) = Inl e"
  shows "e = FileIOError \<and> cleanup env sm' file = (sm', file)
         \<and> run cfg env st sm file = (Inr d, st', sm', file) \<and> state_dirty sm'"
proof -
  from flush_state_error[OF assms(3)]
  have e: "e = FileIOError" and f: "flush_state (disk_error env) sm' file = (Inl FileIOError, sm', file)"
    by simp_all
  have c: "cleanup env sm' file = (sm', file)" by (simp add: cleanup_def f)
  have d: "state_dirty sm'"
    using assms(3) by (auto simp: flush_state_def split: if_splits)
  show ?thesis using assms(1,2) e c d by (simp add: run_def)
qed

theorem flush_failure_logged_not_raised_witness:
  "enabled scenario_config
   \<and> run_try scenario_config scenario_env (fst (load_state None)) (snd (load_state None))
       = Inr (scenario_state, \<lparr>state_cache = scenario_state, state_dirty = True\<rparr>, EmitAlert)
   \<and> fst (flush_state (disk_error scenario_env)
             \<lparr>state_cache = scenario_state, state_dirty = True\<rparr> None) = Inl FileIOError
   \<and> cleanup scenario_env \<lparr>state_cache = scenario_state, state_dirty = True\<rparr> None
       = (\<lparr>state_cache = scenario_state, state_dirty = True\<rparr>, None)
   \<and> run scenario_config scenario_env (fst (load_state None)) (snd (load_state None)) None
       = (Inr EmitAlert, scenario_state, \<lparr>state_cache = scenario_state, state_dirty = True\<rparr>, None)"
proof -
  have h1: "enabled scenario_config" by (simp add: scenario_config_def)
  have h2: "run_try scenario_config scenario_env (fst (load_state None)) (snd (load_state None))
       = Inr (scenario_state, \<lparr>state_cache = scenario_state, state_dirty = True\<rparr>, EmitAlert)"
    by (simp add: cycle_defs example_defs example_defs2)
  have h3: "fst (flush_state (disk_error scenario_env)
             \<lparr>state_cache = scenario_state, state_dirty = True\<rparr> None) = Inl FileIOError"
    by (simp add: cycle_defs example_defs example_defs2)
  from flush_failure_logged_not_raised[OF h1 h2 h3] h1 h2 h3 show ?thesis by simp
qed

text \<open>
  The claim as stated fails: the file system refuses the write in an all-clear cycle. The
  flush raises, \<^verbatim>\<open>run\<close> and the whole process return the decision, and the data file
  still holds the snapshot the all-clear was decided against.
\<close>

theorem flush_failure_swallowed:
  "fst (flush_state (disk_error disk_fail_env)
         \<lparr>state_cache = json_load (tornado_file\<lparr>last_alerts := []\<rparr>), state_dirty = True\<rparr>
         (Some tornado_file)) = Inl FileIOError
   \<and> run scenario_config disk_fail_env (fst (load_state (Some tornado_file)))
         (snd (load_state (Some tornado_file))) (Some tornado_file)
       = (Inr EmitAllClear, json_load (tornado_file\<lparr>last_alerts := []\<rparr>),
          \<lparr>state_cache = json_load (tornado_file\<lparr>last_alerts := []\<rparr>), state_dirty = True\<rparr>,
          Some tornado_file)
   \<and> main scenario_config disk_fail_env (Some tornado_file) = (Inr EmitAllClear, Some tornado_file)"
  by (simp add: cycle_defs example_defs example_defs2)

text \<open>
  C5. The first cycle of the scenario stores its snapshot, a list of \<^verbatim>\<open>AlertData\<close>
  instances, under \<^verbatim>\<open>last_alerts\<close> and saves the state; the flush of that state raises
  \<^verbatim>\<open>FileIOError\<close>, no file is written, and the next cycle reads the empty snapshot as its
  previous one. (A state read from JSON is written and read back unchanged:
  \<open>save_flush_load\<close>.)
\<close>

theorem outgoing_snapshot_not_persisted:
  "run scenario_config scenario_env (fst (load_state None)) (snd (load_state None)) None
     = (Inr EmitAlert, scenario_state, \<lparr>state_cache = scenario_state, state_dirty = True\<rparr>, None)
   \<and> last_alerts scenario_state = [(''Tornado Warning'', [Obj (example_alert ''A'' 4 ''Tornado Warning'')])]
   \<and> flush_state False (save_state (snd (load_state None)) scenario_state) None
       = (Inl FileIOError, \<lparr>state_cache = scenario_state, state_dirty = True\<rparr>, None)
   \<and> snd (main scenario_config scenario_env None) = None
   \<and> last_alerts (fst (load_state (snd (main scenario_config scenario_env None)))) = []"
  by (simp add: cycle_defs example_defs example_defs2)

section \<open>Zone fetcher: one result per zone\<close>

lemma fold_update_map_of:
  "map_of (fold (\<lambda>(k, v) al. AList.update k v al) xs acc) = map_of acc ++ map_of (rev xs)"
proof (induction xs arbitrary: acc)
  case Nil
  then show ?case by simp
next
  case (Cons x xs)
  obtain k v where x: "x = (k, v)" by (cases x)
  have "map_of (AList.update k v acc) ++ map_of (rev xs)
        = map_of acc ++ (map_of [(k, v)] ++ map_of (rev xs))"
    by (simp add: update_conv' fun_eq_iff map_add_def split: option.splits)
  with Cons show ?case by (simp add: x)
qed

lemma fold_update_distinct:
  "distinct (map fst acc) \<Longrightarrow>
   distinct (map fst (fold (\<lambda>(k, v) al. AList.update k v al) xs acc))"
  by (induction xs arbitrary: acc) (auto simp: distinct_update)

lemma fold_update_keys:
  "fst ` set (fold (\<lambda>(k, v) al. AList.update k v al) xs acc) = fst ` set acc \<union> fst ` set xs"
proof (induction xs arbitrary: acc)
  case Nil
  then show ?case by simp
next
  case (Cons x xs)
  obtain k v where x: "x = (k, v)" by (cases x)
  have "fst ` set (AList.update k v acc) = insert k (fst ` set acc)"
    by (simp add: dom_update)
  with Cons[of "AList.update k v acc"] show ?case by (simp add: x)
qed

lemma map_of_graph:
  assumes "set ys = (\<lambda>c. (c, g c)) ` S" and "c \<in> S"
  shows "map_of ys c = Some (g c)"
proof -
  from assms have "(c, g c) \<in> set ys" by auto
  then have "c \<in> fst ` set ys" by force
  then obtain v where v: "map_of ys c = Some v"
    by (cases "map_of ys c") (auto simp: map_of_eq_None_iff)
  then have "(c, v) \<in> set ys" by (rule map_of_SomeD)
  with assms(1) have "v = g c" by auto
  with v show ?thesis by simp
qed

lemma fetch_county_alerts_eq:
  "fetch_county_alerts sg c = (c, case sg c of Json (Some d) \<Rightarrow> Some d | _ \<Rightarrow> None)"
  by (simp add: fetch_county_alerts_def split: http_result.splits option.splits)

text \<open>
  C9, as the code has it. For a non-empty list of county codes (and a positive worker
  limit), whatever the order in which the fetches complete,
  \<^verbatim>\<open>fetch_alerts_for_counties\<close> returns a mapping with exactly one entry per distinct
  county code; the entry of a county is its own payload, or \<^verbatim>\<open>None\<close> when its fetch
  timed out or failed, whatever happened to the other counties.
\<close>

theorem fetch_alerts_for_counties_complete:
  assumes "county_codes \<noteq> []" and "0 < max_workers"
      and "set (ac (map (fetch_county_alerts sg) county_codes))
             = set (map (fetch_county_alerts sg) county_codes)"
  shows "\<exists>alerts_data.
           fetch_alerts_for_counties max_workers sg ac county_codes = Inr alerts_data
           \<and> distinct (map fst alerts_data) \<and> fst ` set alerts_data = set county_codes
           \<and> (\<forall>c \<in> set county_codes.
                 map_of alerts_data c
                   = Some (case sg c of Json (Some d) \<Rightarrow> Some d | _ \<Rightarrow> None))"
proof -
  let ?g = "\<lambda>c. case sg c of Json (Some d) \<Rightarrow> Some d | _ \<Rightarrow> None"
  let ?xs = "ac (map (fetch_county_alerts sg) county_codes)"
  let ?m = "fold (\<lambda>(k, v) al. AList.update k v al) ?xs []"
  have s: "set ?xs = (\<lambda>c. (c, ?g c)) ` set county_codes"
    using assms(3) by (simp add: fetch_county_alerts_eq)
  have r: "fetch_alerts_for_counties max_workers sg ac county_codes = Inr ?m"
    using assms(1,2) by (cases county_codes) (simp_all add: fetch_alerts_for_counties_def min_def)
  have d: "distinct (map fst ?m)" by (rule fold_update_distinct) simp
  have k: "fst ` set ?m = set county_codes"
    by (simp add: fold_update_keys s image_image)
  have v: "map_of ?m c = Some (?g c)" if "c \<in> set county_codes" for c
  proof -
    have "set (rev ?xs) = (\<lambda>c. (c, ?g c)) ` set county_codes" using s by simp
    from map_of_graph[OF this that] show ?thesis by (simp add: fold_update_map_of)
  qed
  from r d k v show ?thesis by blast
qed

theorem fetch_alerts_for_counties_complete_witness:
  "[''A'', ''B''] \<noteq> [] \<and> (0::int) < 10
   \<and> set (as_completed failing_zone_env
             (map (fetch_county_alerts (session_get failing_zone_env)) [''A'', ''B'']))
       = set (map (fetch_county_alerts (session_get failing_zone_env)) [''A'', ''B''])
   \<and> (\<exists>alerts_data.
           fetch_alerts_for_counties 10 (session_get failing_zone_env)
             (as_completed failing_zone_env) [''A'', ''B''] = Inr alerts_data
           \<and> distinct (map fst alerts_data) \<and> fst ` set alerts_data = set [''A'', ''B'']
           \<and> map_of alerts_data ''A'' = Some (Some [tornado_warning])
           \<and> map_of alerts_data ''B'' = Some None)"
proof -
  have h1: "[''A'', ''B''] \<noteq> ([]::string list)" by simp
  have h2: "(0::int) < 10" by simp
  have h3: "set (as_completed failing_zone_env
             (map (fetch_county_alerts (session_get failing_zone_env)) [''A'', ''B'']))
       = set (map (fetch_county_alerts (session_get failing_zone_env)) [''A'', ''B''])"
    by (auto simp: failing_zone_env_def)
  have g: "session_get failing_zone_env ''A'' = Json (Some [tornado_warning])"
    "session_get failing_zone_env ''B'' = Timeout"
    by (simp_all add: failing_zone_env_def)
  from fetch_alerts_for_counties_complete[where county_codes = "[''A'', ''B'']"
      and max_workers = 10 and ac = "as_completed failing_zone_env"
      and sg = "session_get failing_zone_env", OF h1 h2 h3] g h3
  show ?thesis by auto
qed

text \<open>
  The claim as stated fails on the empty list: the worker pool is asked for
  \<^verbatim>\<open>min(0, 10)\<close> workers and raises \<^verbatim>\<open>ValueError\<close>. (\<^verbatim>\<open>run\<close> returns before the call
  when no county is configured.)
\<close>

theorem empty_zone_list_raises:
  "fetch_alerts_for_counties 10 (session_get scenario_env) (as_completed scenario_env) []
     = Inl ValueError"
  by (simp add: fetch_alerts_for_counties_def)

section \<open>Decision engine: failing announcements\<close>

text \<open>
  Whatever exceptions the announcer and the notification service raise, in a cycle whose
  snapshot is computed and diffed the \<^verbatim>\<open>try\<close> block of \<^verbatim>\<open>run\<close> returns: the state's
  \<^verbatim>\<open>last_alerts\<close> is the current sorted snapshot, the state is saved (it is the cache,
  marked dirty), and \<^verbatim>\<open>run\<close> returns a decision, not an exception.
\<close>

lemma announcement_exceptions_caught:
  assumes "current_alerts cfg env = Inr als"
      and "detect_county_changes (last_alerts st) (as_snapshot als) = Inr ch"
  shows "\<exists>st' d.
           run_try cfg (env\<lparr>say_alerts_exc := a, send_alert_notification_exc := b,
                            say_all_clear_exc := c, send_all_clear_notification_exc := x\<rparr>) st sm
             = Inr (st', save_state sm st', d)
           \<and> last_alerts st' = as_snapshot als
           \<and> state_cache (save_state sm st') = st' \<and> state_dirty (save_state sm st')
           \<and> (\<exists>sm' file'.
                 run cfg (env\<lparr>say_alerts_exc := a, send_alert_notification_exc := b,
                              say_all_clear_exc := c, send_all_clear_notification_exc := x\<rparr>)
                   st sm file
                   = (if enabled cfg then (Inr d, st', sm', file') else (Inr NoDecision, st, sm, file)))"
proof -
  let ?env = "env\<lparr>say_alerts_exc := a, send_alert_notification_exc := b,
                   say_all_clear_exc := c, send_all_clear_notification_exc := x\<rparr>"
  have ca: "current_alerts cfg ?env = Inr als"
    using assms(1) by (simp add: current_alerts_def cong: sum.case_cong)
  have cc: "county_configs cfg \<noteq> []" using assms(1) by (rule current_alerts_configs)
  let ?h = "if als \<noteq> [] then handle_active_alerts cfg ?env st als ch
            else handle_all_clear cfg ?env st (last_alerts st)"
  let ?st = "(fst ?h)\<lparr>last_alerts := as_snapshot als\<rparr>"
  have r: "run_try cfg ?env st sm = Inr (?st, save_state sm ?st, snd ?h)"
    using ca cc assms(2) by (simp add: run_try_def Let_def split_beta)
  have 1: "last_alerts ?st = as_snapshot als" by simp
  have 2: "state_cache (save_state sm ?st) = ?st" "state_dirty (save_state sm ?st)"
    by (simp_all add: save_state_def)
  have 3: "\<exists>sm' file'. run cfg ?env st sm file
            = (if enabled cfg then (Inr (snd ?h), ?st, sm', file') else (Inr NoDecision, st, sm, file))"
    by (simp add: run_def r split_beta)
  from r 1 2 3 show ?thesis by blast
qed

section \<open>What a cycle leaves on disk\<close>

lemma loaded_serializable: "\<exists>j. json_dump (fst (load_state file)) = Inr j"
proof (cases "file")
  case None
  then show ?thesis by (simp add: load_state_def json_dump_def Let_def)
next
  case (Some j)
  then show ?thesis by (simp add: load_state_def json_dump_load Let_def)
qed

lemma json_dump_cleared:
  assumes "json_dump st = Inr j"
  shows "json_dump (st\<lparr>last_alerts := []\<rparr>) = Inr (j\<lparr>last_alerts := []\<rparr>)"
    and "json_dump (st\<lparr>last_allclear := [], last_alerts := []\<rparr>)
           = Inr (j\<lparr>last_allclear := [], last_alerts := []\<rparr>)"
  using assms by (auto simp: json_dump_def split: sum.splits)

lemma cleanup_clean: "\<not> state_dirty sm \<Longrightarrow> cleanup env sm file = (sm, file)"
  by (simp add: cleanup_def flush_state_def)

lemma cleanup_twice:
  "cleanup env (fst (cleanup env sm file)) (snd (cleanup env sm file)) = cleanup env sm file"
  by (auto simp: cleanup_def flush_state_def split: sum.splits)

lemma cleanup_saved:
  "snd (cleanup env (save_state sm st) file)
     = (if disk_error env then file
        else case json_dump st of Inl e \<Rightarrow> file | Inr j \<Rightarrow> Some j)"
  by (auto simp: cleanup_def flush_state_def save_state_def split: sum.splits)

lemma main_unfold:
  "main cfg env file =
     (if \<not> enabled cfg then (Inr NoDecision, file)
      else case run_try cfg env (fst (load_state file)) (snd (load_state file)) of
             Inl e \<Rightarrow> (Inl e, file)
           | Inr (st', sm', d) \<Rightarrow> (Inr d, snd (cleanup env sm' file)))"
proof -
  have c: "\<not> state_dirty (snd (load_state file))" by (simp add: load_state_def Let_def)
  show ?thesis
    using cleanup_twice cleanup_clean[OF c]
    by (auto simp: main_def run_def split_beta Let_def split: sum.splits)
qed

lemma run_try_quiet:
  assumes "current_alerts cfg env = Inr []"
  shows "\<exists>st'. run_try cfg env st sm =
            Inr (st', save_state sm st',
                 if say_all_clear cfg \<and> last_alerts st \<noteq> [] then EmitAllClear else NoDecision)
          \<and> (st' = st\<lparr>last_alerts := []\<rparr> \<or> st' = st\<lparr>last_allclear := [], last_alerts := []\<rparr>)"
proof -
  have c: "county_configs cfg \<noteq> []" using assms by (rule current_alerts_configs)
  show ?thesis
    using assms c
    by (auto simp: run_try_def detect_no_new as_snapshot_def handle_all_clear_def Let_def
             split: option.splits sum.splits)
qed

lemma main_quiet:
  assumes "enabled cfg" and "current_alerts cfg env = Inr []" and "\<not> disk_error env"
  shows "\<exists>j'. main cfg env file =
           (Inr (if say_all_clear cfg \<and> last_alerts (fst (load_state file)) \<noteq> []
                 then EmitAllClear else NoDecision), Some j')
         \<and> last_alerts j' = []"
proof -
  let ?st = "fst (load_state file)" and ?sm = "snd (load_state file)"
  obtain j where j: "json_dump ?st = Inr j" using loaded_serializable by blast
  from run_try_quiet[OF assms(2), of ?st ?sm] obtain st' where
    r: "run_try cfg env ?st ?sm =
            Inr (st', save_state ?sm st',
                 if say_all_clear cfg \<and> last_alerts ?st \<noteq> [] then EmitAllClear else NoDecision)"
    and s: "st' = ?st\<lparr>last_alerts := []\<rparr> \<or> st' = ?st\<lparr>last_allclear := [], last_alerts := []\<rparr>"
    by blast
  from s json_dump_cleared[OF j] obtain j' where
    j': "json_dump st' = Inr j'" "last_alerts j' = []" by auto
  show ?thesis
    using assms(1,3) r j' by (simp add: main_unfold cleanup_saved)
qed

text \<open>
  A repeated empty snapshot: the cycle after a quiet cycle reads the empty snapshot the
  quiet cycle wrote, and takes no decision.
\<close>

lemma repeated_empty_no_decision:
  assumes "enabled cfg" and "current_alerts cfg env = Inr []" and "\<not> disk_error env"
  shows "fst (main cfg env (snd (main cfg env file))) = Inr NoDecision"
proof -
  from main_quiet[OF assms, of "file"] obtain j' where
    1: "snd (main cfg env file) = Some j'" and 2: "last_alerts j' = []" by auto
  have "last_alerts (fst (load_state (Some j'))) = []"
    using 2 by (simp add: load_state_def json_load_def load_snapshot_def Let_def)
  with main_quiet[OF assms, of "Some j'"] show ?thesis by (auto simp: 1)
qed


lemma alert_severities_nonempty:
  "alert_severities xs = Inr sevs \<Longrightarrow> \<forall>p \<in> set xs. snd p \<noteq> []"
proof (induction xs arbitrary: sevs)
  case Nil
  then show ?case by simp
next
  case (Cons p xs)
  obtain t l where p: "p = (t, l)" by (cases p)
  from Cons.prems p have "l \<noteq> []" by (cases l) simp_all
  moreover from Cons.prems p obtain sevs' where "alert_severities xs = Inr sevs'"
    by (auto split: sum.splits)
  ultimately show ?case using Cons.IH p by auto
qed

lemma set_update_subset: "set (AList.update k v al) \<subseteq> insert (k, v) (set al)"
  by (induction al) auto

lemma fold_lookup_entries:
  "(t, l) \<in> set (fold (\<lambda>(alert_type, _) sorted_alerts.
                         case map_of xs alert_type of
                           Some alert_list \<Rightarrow> AList.update alert_type alert_list sorted_alerts
                         | None \<Rightarrow> sorted_alerts) ys acc)
   \<Longrightarrow> (t, l) \<in> set acc \<or> map_of xs t = Some l"
proof (induction ys arbitrary: acc)
  case Nil
  then show ?case by simp
next
  case (Cons y ys)
  obtain k m where y: "y = (k, m)" by (cases y)
  show ?case
  proof (cases "map_of xs k")
    case None
    with Cons.prems y have "(t, l) \<in> set (fold (\<lambda>(alert_type, _) sorted_alerts.
                         case map_of xs alert_type of
                           Some alert_list \<Rightarrow> AList.update alert_type alert_list sorted_alerts
                         | None \<Rightarrow> sorted_alerts) ys acc)" by simp
    then show ?thesis by (rule Cons.IH)
  next
    case (Some v)
    with Cons.prems y have "(t, l) \<in> set (fold (\<lambda>(alert_type, _) sorted_alerts.
                         case map_of xs alert_type of
                           Some alert_list \<Rightarrow> AList.update alert_type alert_list sorted_alerts
                         | None \<Rightarrow> sorted_alerts) ys (AList.update k v acc))" by simp
    then have "(t, l) \<in> set (AList.update k v acc) \<or> map_of xs t = Some l" by (rule Cons.IH)
    with set_update_subset[of k v acc] Some show ?thesis by auto
  qed
qed

lemma sort_success_nonempty:
  assumes "sort_alerts_by_severity xs = Inr als"
  shows "\<forall>p \<in> set als. snd p \<noteq> []"
proof
  fix p assume p: "p \<in> set als"
  obtain t l where tl: "p = (t, l)" by (cases p)
  from assms obtain sevs where sevs: "alert_severities xs = Inr sevs"
    by (auto simp: sort_alerts_by_severity_def split: sum.splits)
  with assms have "als = fold (\<lambda>(alert_type, _) sorted_alerts.
                         case map_of xs alert_type of
                           Some alert_list \<Rightarrow> AList.update alert_type alert_list sorted_alerts
                         | None \<Rightarrow> sorted_alerts) (sort_key (\<lambda>x. - snd x) sevs) []"
    by (simp add: sort_alerts_by_severity_def)
  with p tl fold_lookup_entries[of t l xs "sort_key (\<lambda>x. - snd x) sevs" "[]"]
  have "map_of xs t = Some l" by simp
  then have "(t, l) \<in> set xs" by (rule map_of_SomeD)
  with alert_severities_nonempty[OF sevs] tl show "snd p \<noteq> []" by auto
qed

lemma current_alerts_nonempty:
  "current_alerts cfg env = Inr als \<Longrightarrow> \<forall>p \<in> set als. snd p \<noteq> []"
  by (auto simp: current_alerts_def split: sum.splits dest: sort_success_nonempty)

text \<open>A non-empty snapshot of the current cycle cannot be written as JSON.\<close>

lemma current_snapshot_not_serializable:
  assumes "current_alerts cfg env = Inr als" and "als \<noteq> []"
      and "last_alerts st = as_snapshot als"
  shows "json_dump st = Inl TypeError"
proof -
  from assms(2) obtain t l rest where als: "als = (t, l) # rest" by (cases als) auto
  with current_alerts_nonempty[OF assms(1)] obtain a l' where l: "l = a # l'"
    by (cases l) auto
  have "dump_snapshot (as_snapshot als) = Inl TypeError"
    by (simp add: als l as_snapshot_def)
  with assms(3) show ?thesis by (simp add: json_dump_def)
qed

text \<open>
  The data file a cycle leaves holds the same \<^verbatim>\<open>last_alerts\<close> whether or not the calls
  to the announcer and the notification service raise.
\<close>

lemma announcement_failure_same_file:
  "map_option last_alerts
     (snd (main cfg (env\<lparr>say_alerts_exc := a, send_alert_notification_exc := b,
                         say_all_clear_exc := c, send_all_clear_notification_exc := x\<rparr>) file))
   = map_option last_alerts (snd (main cfg env file))"
proof -
  let ?env = "env\<lparr>say_alerts_exc := a, send_alert_notification_exc := b,
                   say_all_clear_exc := c, send_all_clear_notification_exc := x\<rparr>"
  let ?st = "fst (load_state file)" and ?sm = "snd (load_state file)"
  have same: "current_alerts cfg ?env = current_alerts cfg env"
    by (simp add: current_alerts_def cong: sum.case_cong)
  have de: "disk_error ?env = disk_error env" by simp
  have written: "map_option last_alerts (snd (main cfg e file)) =
          (if \<not> enabled cfg \<or> county_configs cfg = [] \<or> disk_error e then map_option last_alerts file
           else case current_alerts cfg e of
                  Inl err \<Rightarrow> map_option last_alerts file
                | Inr als \<Rightarrow>
                    (case detect_county_changes (last_alerts ?st) (as_snapshot als) of
                       Inl err \<Rightarrow> map_option last_alerts file
                     | Inr ch \<Rightarrow> if als \<noteq> [] then map_option last_alerts file else Some []))" for e
  proof (cases "\<not> enabled cfg \<or> county_configs cfg = []")
    case True
    have "\<not> state_dirty ?sm" by (simp add: load_state_def Let_def)
    with True show ?thesis
      by (auto simp: main_unfold run_try_def cleanup_clean)
  next
    case False
    show ?thesis
    proof (cases "current_alerts cfg e")
      case (Inl err)
      with False show ?thesis by (simp add: main_unfold run_try_def)
    next
      case (Inr als)
      show ?thesis
      proof (cases "detect_county_changes (last_alerts ?st) (as_snapshot als)")
        case (Inl err)
        with False Inr show ?thesis by (simp add: main_unfold run_try_def Let_def)
      next
        case ch: (Inr ch)
        show ?thesis
        proof (cases "als = []")
          case True
          from main_quiet[of cfg e "file"] Inr True False
          have "\<not> disk_error e \<Longrightarrow> map_option last_alerts (snd (main cfg e file)) = Some []"
            by auto
          moreover have "disk_error e \<Longrightarrow> snd (main cfg e file) = file"
            using False Inr True ch
            by (auto simp: main_unfold run_try_def cleanup_saved Let_def split_beta)
          ultimately show ?thesis using False Inr ch True by auto
        next
          case ne: False
          let ?h = "handle_active_alerts cfg e ?st als ch"
          let ?st2 = "(fst ?h)\<lparr>last_alerts := as_snapshot als\<rparr>"
          have r: "run_try cfg e ?st ?sm = Inr (?st2, save_state ?sm ?st2, snd ?h)"
            using False Inr ch ne by (simp add: run_try_def Let_def split_beta)
          have "json_dump ?st2 = Inl TypeError"
            by (rule current_snapshot_not_serializable[OF Inr ne]) simp
          then have "snd (main cfg e file) = file"
            using False r by (simp add: main_unfold cleanup_saved)
          then show ?thesis using False Inr ch ne by simp
        qed
      qed
    qed
  qed
  show ?thesis
    unfolding written[of ?env] written[of env] same de ..
qed

text \<open>
  After the scenario's own alert cycle the data file is still missing, so the quiet cycle
  that follows has no previous snapshot and takes no all-clear decision.
\<close>

lemma all_clear_missed_after_own_cycle:
  "fst (main scenario_config quiet_env (snd (main scenario_config scenario_env None)))
     = Inr NoDecision"
  by (simp add: cycle_defs example_defs)

text \<open>
  A data file whose \<^verbatim>\<open>last_alerts\<close> shares an AlertType with the current snapshot: the
  change detector subscripts the current \<^verbatim>\<open>AlertData\<close> instances, and the cycle ends with
  \<^verbatim>\<open>TypeError\<close>, the file as it was.
\<close>

lemma shared_type_raises:
  "main scenario_config scenario_env (Some tornado_file) = (Inl TypeError, Some tornado_file)"
  by (simp add: cycle_defs example_defs)

section \<open>Failing announcements and the next cycle\<close>


end
